theory Spec2Isabelle
  imports Complex_Main "HOL-Library.Sublist"
begin

section \<open>Shared helpers: characters and number rendering\<close>

text \<open>
  Strings are lists of characters. The four characters the sources treat specially are
  named once: the line feed, the carriage return, the double quote and the backslash.
\<close>

definition LF :: char where
  "LF = CHR 0x0A"

definition CR :: char where
  "CR = CHR 0x0D"

definition DQ :: char where
  "DQ = CHR 0x22"

definition BS :: char where
  "BS = CHR 0x5C"

text \<open>
  Decimal rendering of an integer, as a JavaScript template literal and Java's
  \<^verbatim>\<open>String.valueOf(int)\<close> produce it.
\<close>

fun nat_digits :: "nat \<Rightarrow> string" where
  "nat_digits n =
     (if n < 10 then [''0123456789'' ! n]
      else nat_digits (n div 10) @ [''0123456789'' ! (n mod 10)])"

declare nat_digits.simps [simp del]

definition int_to_string :: "int \<Rightarrow> string" where
  "int_to_string i = (if i < 0 then CHR ''-'' # nat_digits (nat (- i)) else nat_digits (nat i))"

section \<open>The UI-tier store (useQemuStore)\<close>

text \<open>\<^verbatim>\<open>VM_STATUS\<close> and \<^verbatim>\<open>VM_CONFIG\<close> of the application constants.\<close>

datatype vm_status = STOPPED | STARTING | RUNNING | STOPPING | ERROR | INITIALIZING

definition DEFAULT_RAM_MB :: int where
  "DEFAULT_RAM_MB = 2048"

definition DEFAULT_CPU_CORES :: int where
  "DEFAULT_CPU_CORES = 2"

definition MIN_RAM_MB :: int where
  "MIN_RAM_MB = 512"

definition MAX_RAM_MB :: int where
  "MAX_RAM_MB = 8192"

definition MIN_CPU_CORES :: int where
  "MIN_CPU_CORES = 1"

definition MAX_CPU_CORES :: int where
  "MAX_CPU_CORES = 8"

record log_entry =
  timestamp :: string
  message :: string

record vm_stats =
  uptime :: real
  cpuUsage :: real
  memoryUsage :: real

text \<open>The object \<^verbatim>\<open>initialize\<close> of the native module resolves with.\<close>

record init_result =
  qemuDir :: string
  isoPath :: string
  diskPath :: string

text \<open>
  The object \<^verbatim>\<open>getStatus\<close> of the native module resolves with; a field that is
  absent (\<^verbatim>\<open>undefined\<close>) is \<open>None\<close>.
\<close>

record status_reply =
  reply_status :: string
  reply_uptime :: "real option"
  reply_cpuUsage :: "real option"
  reply_memoryUsage :: "real option"

record command_reply =
  reply_output :: "string option"

record qemu_store =
  vmStatus :: vm_status
  vmLogs :: "log_entry list"
  vmStats :: vm_stats
  isInitialized :: bool
  qemuPaths :: "init_result option"
  error :: "string option"
  ramMB :: int
  cpuCores :: int
  statusInterval :: "nat option"

text \<open>
  What the store's actions reach outside the store: the native (or mock) module behind
  \<^verbatim>\<open>QemuService\<close>, whose promises resolve (\<open>Inr\<close>) or reject with a message
  (\<open>Inl\<close>); the persistent settings; the wall clock read by \<^verbatim>\<open>new Date()\<close>, whose
  \<open>k\<close>-th reading during one action, counted from 0, is \<open>now k\<close>; and the handle
  \<^verbatim>\<open>setInterval\<close> returns (timer handles are non-zero, hence truthy).
\<close>

record runtime =
  module_initialize :: "string + init_result"
  module_startVM :: "int \<Rightarrow> int \<Rightarrow> string + unit"
  module_stopVM :: "string + unit"
  module_getStatus :: "string + status_reply"
  module_sendCommand :: "string \<Rightarrow> string + command_reply"
  storage_setNumber :: "string \<Rightarrow> int \<Rightarrow> string + unit"
  now :: "nat \<Rightarrow> string"
  setInterval_id :: nat

text \<open>The calls an action makes on its collaborators, in order.\<close>

datatype effect =
    CallInitialize
  | CallStartVM int int
  | CallStopVM
  | CallGetStatus
  | CallSendCommand string
  | CallSetNumber string int
  | SetInterval nat
  | ClearInterval nat
  | AddEventListener string
  | RemoveAllListeners
  | Delay nat

text \<open>The events the native module emits to the listeners of the store.\<close>

datatype vm_event =
    VmStatusEvent string
  | VmLogEvent string
  | VmErrorEvent string

text \<open>\<^verbatim>\<open>a || b\<close> on an optional number: \<^verbatim>\<open>undefined\<close> and \<open>0\<close> are falsy.\<close>

definition js_or :: "int option \<Rightarrow> int \<Rightarrow> int" where
  "js_or a b = (case a of None \<Rightarrow> b | Some x \<Rightarrow> if x = 0 then b else x)"

definition js_or_zero :: "real option \<Rightarrow> real" where
  "js_or_zero a = (case a of None \<Rightarrow> 0 | Some x \<Rightarrow> x)"

text \<open>\<^verbatim>\<open>xs.slice(-n)\<close>: the last \<open>n\<close> elements, all of them when there are fewer.\<close>

definition slice_last :: "nat \<Rightarrow> 'a list \<Rightarrow> 'a list" where
  "slice_last n xs = drop (length xs - n) xs"

definition initial_store :: qemu_store where
  "initial_store =
     \<lparr>vmStatus = STOPPED, vmLogs = [],
      vmStats = \<lparr>uptime = 0, cpuUsage = 0, memoryUsage = 0\<rparr>,
      isInitialized = False, qemuPaths = None, error = None,
      ramMB = DEFAULT_RAM_MB, cpuCores = DEFAULT_CPU_CORES, statusInterval = None\<rparr>"

definition addLog :: "string \<Rightarrow> string \<Rightarrow> qemu_store \<Rightarrow> qemu_store" where
  "addLog ts msg s =
     s\<lparr>vmLogs := slice_last 200 (vmLogs s @ [\<lparr>timestamp = ts, message = msg\<rparr>])\<rparr>"

definition clearLogs :: "qemu_store \<Rightarrow> qemu_store" where
  "clearLogs s = s\<lparr>vmLogs := []\<rparr>"

definition clearError :: "qemu_store \<Rightarrow> qemu_store" where
  "clearError s = s\<lparr>error := None\<rparr>"

definition isVmRunning :: "qemu_store \<Rightarrow> bool" where
  "isVmRunning s = (vmStatus s = RUNNING)"

definition isVmBusy :: "qemu_store \<Rightarrow> bool" where
  "isVmBusy s = (vmStatus s \<in> set [STARTING, STOPPING, INITIALIZING])"

definition initialize ::
  "runtime \<Rightarrow> qemu_store \<Rightarrow> (string + init_result) \<times> qemu_store \<times> effect list" where
  "initialize rt s =
     (let s1 = s\<lparr>vmStatus := INITIALIZING, error := None\<rparr> in
      case module_initialize rt of
        Inr result \<Rightarrow>
          (Inr result,
           addLog (now rt 0) ''QEMU environment initialized successfully''
             (s1\<lparr>isInitialized := True, qemuPaths := Some result,
                 vmStatus := STOPPED, error := None\<rparr>),
           [CallInitialize])
      | Inl msg \<Rightarrow>
          (Inl msg,
           addLog (now rt 0) (''Initialization failed: '' @ msg)
             (s1\<lparr>vmStatus := ERROR, error := Some msg\<rparr>),
           [CallInitialize]))"

definition startStatusPolling :: "runtime \<Rightarrow> qemu_store \<Rightarrow> qemu_store \<times> effect list" where
  "startStatusPolling rt s =
     (s\<lparr>statusInterval := Some (setInterval_id rt)\<rparr>,
      (case statusInterval s of Some h \<Rightarrow> [ClearInterval h] | None \<Rightarrow> [])
        @ [SetInterval 5000])"

definition stopStatusPolling :: "qemu_store \<Rightarrow> qemu_store \<times> effect list" where
  "stopStatusPolling s =
     (case statusInterval s of
        Some h \<Rightarrow> (s\<lparr>statusInterval := None\<rparr>, [ClearInterval h])
      | None \<Rightarrow> (s, []))"

definition setupEventListeners :: "effect list" where
  "setupEventListeners =
     [AddEventListener ''vmStatus'', AddEventListener ''vmLog'', AddEventListener ''vmError'']"

text \<open>
  \<^verbatim>\<open>startVM\<close>: the settings are read first, the store is initialised when it is not
  yet (a failure there is rethrown), then the launch is requested with
  \<^verbatim>\<open>customRamMB || ramMB\<close> and \<^verbatim>\<open>customCpuCores || cpuCores\<close>.
\<close>

definition startVM ::
  "runtime \<Rightarrow> int option \<Rightarrow> int option \<Rightarrow> qemu_store \<Rightarrow> (string + unit) \<times> qemu_store \<times> effect list"
  where
  "startVM rt customRamMB customCpuCores s =
     (case (if \<not> isInitialized s
            then (case initialize rt s of (r, s', e) \<Rightarrow> (map_sum id (\<lambda>_. ()) r, s', e, 1))
            else (Inr (), s, [], 0::nat)) of
        (Inl msg, s0, e0, k) \<Rightarrow> (Inl msg, s0, e0)
      | (Inr _, s0, e0, k) \<Rightarrow>
          (let ram = js_or customRamMB (ramMB s);
               cpu = js_or customCpuCores (cpuCores s);
               s1 = addLog (now rt k)
                      (''Starting VM with '' @ int_to_string ram @ ''MB RAM and ''
                         @ int_to_string cpu @ '' CPU cores...'')
                      (s0\<lparr>vmStatus := STARTING, error := None\<rparr>)
           in case module_startVM rt ram cpu of
                Inr _ \<Rightarrow>
                  (let s2 = addLog (now rt (k + 1)) ''VM started successfully''
                              (s1\<lparr>vmStatus := RUNNING\<rparr>);
                       (s3, e3) = startStatusPolling rt s2
                   in (Inr (), s3, e0 @ [CallStartVM ram cpu] @ e3 @ setupEventListeners))
              | Inl msg \<Rightarrow>
                  (Inl msg,
                   addLog (now rt (k + 1)) (''VM start failed: '' @ msg)
                     (s1\<lparr>vmStatus := ERROR, error := Some msg\<rparr>),
                   e0 @ [CallStartVM ram cpu])))"

definition stopVM :: "runtime \<Rightarrow> qemu_store \<Rightarrow> (string + unit) \<times> qemu_store \<times> effect list" where
  "stopVM rt s =
     (let s1 = addLog (now rt 0) ''Stopping VM...'' (s\<lparr>vmStatus := STOPPING, error := None\<rparr>) in
      case module_stopVM rt of
        Inr _ \<Rightarrow>
          (let s2 = addLog (now rt 1) ''VM stopped successfully'' (s1\<lparr>vmStatus := STOPPED\<rparr>);
               (s3, e3) = stopStatusPolling s2
           in (Inr (), s3, [CallStopVM] @ e3 @ [RemoveAllListeners]))
      | Inl msg \<Rightarrow>
          (Inl msg,
           addLog (now rt 1) (''VM stop failed: '' @ msg) (s1\<lparr>error := Some msg\<rparr>),
           [CallStopVM]))"

text \<open>
  \<^verbatim>\<open>getStatus\<close> stores the three statistics of the reply and returns the reply
  (\<open>None\<close> for \<^verbatim>\<open>null\<close> when the module rejects). The \<^verbatim>\<open>status\<close> field of the
  reply is not read.
\<close>

definition getStatus ::
  "runtime \<Rightarrow> qemu_store \<Rightarrow> status_reply option \<times> qemu_store \<times> effect list" where
  "getStatus rt s =
     (case module_getStatus rt of
        Inr st \<Rightarrow>
          (Some st,
           s\<lparr>vmStats := \<lparr>uptime = js_or_zero (reply_uptime st),
                          cpuUsage = js_or_zero (reply_cpuUsage st),
                          memoryUsage = js_or_zero (reply_memoryUsage st)\<rparr>\<rparr>,
           [CallGetStatus])
      | Inl _ \<Rightarrow> (None, s, [CallGetStatus]))"

text \<open>The callback \<^verbatim>\<open>startStatusPolling\<close> hands to \<^verbatim>\<open>setInterval\<close> (every 5000 ms).\<close>

definition pollTick :: "runtime \<Rightarrow> qemu_store \<Rightarrow> qemu_store \<times> effect list" where
  "pollTick rt s =
     (if vmStatus s = RUNNING then (case getStatus rt s of (_, s', e) \<Rightarrow> (s', e)) else (s, []))"

text \<open>The three listeners \<^verbatim>\<open>setupEventListeners\<close> registers, by event name.\<close>

fun onEvent :: "string \<Rightarrow> vm_event \<Rightarrow> qemu_store \<Rightarrow> qemu_store" where
  "onEvent ts (VmStatusEvent st) s =
     (let s1 = addLog ts (''VM Status: '' @ st) s in
      if st = ''stopped'' then s1\<lparr>vmStatus := STOPPED\<rparr> else s1)"
| "onEvent ts (VmLogEvent msg) s = addLog ts msg s"
| "onEvent ts (VmErrorEvent msg) s = addLog ts (''Error: '' @ msg) (s\<lparr>error := Some msg\<rparr>)"

text \<open>
  \<^verbatim>\<open>restartVM\<close>: one log entry, the stop (two readings of the clock), the delay, the
  start with no arguments, one more log entry. The start reads the clock twice on an
  initialised store, once when its initialisation fails and three times when it succeeds.
\<close>

definition restartVM :: "runtime \<Rightarrow> qemu_store \<Rightarrow> (string + unit) \<times> qemu_store \<times> effect list" where
  "restartVM rt s =
     (let s1 = addLog (now rt 0) ''Restarting VM...'' s in
      case stopVM (rt\<lparr>now := \<lambda>k. now rt (k + 1)\<rparr>) s1 of
        (Inl msg, s2, e2) \<Rightarrow>
          (Inl msg, addLog (now rt 3) (''VM restart failed: '' @ msg) s2, e2)
      | (Inr _, s2, e2) \<Rightarrow>
          (let n = (if isInitialized s2 then 2
                    else (case module_initialize rt of Inl _ \<Rightarrow> 1 | Inr _ \<Rightarrow> 3))
           in case startVM (rt\<lparr>now := \<lambda>k. now rt (k + 3)\<rparr>) None None s2 of
                (Inl msg, s3, e3) \<Rightarrow>
                  (Inl msg,
                   addLog (now rt (3 + n)) (''VM restart failed: '' @ msg) s3,
                   e2 @ [Delay 2000] @ e3)
              | (Inr _, s3, e3) \<Rightarrow>
                  (Inr (),
                   addLog (now rt (3 + n)) ''VM restarted successfully'' s3,
                   e2 @ [Delay 2000] @ e3)))"

definition setRamMB :: "runtime \<Rightarrow> int \<Rightarrow> qemu_store \<Rightarrow> (string + unit) \<times> qemu_store \<times> effect list"
  where
  "setRamMB rt ram s =
     (if ram \<ge> MIN_RAM_MB \<and> ram \<le> MAX_RAM_MB
      then (case storage_setNumber rt ''@vm_ram'' ram of
              Inr _ \<Rightarrow> (Inr (), s\<lparr>ramMB := ram\<rparr>, [CallSetNumber ''@vm_ram'' ram])
            | Inl msg \<Rightarrow> (Inl msg, s, [CallSetNumber ''@vm_ram'' ram]))
      else (Inr (), s, []))"

definition setCpuCores ::
  "runtime \<Rightarrow> int \<Rightarrow> qemu_store \<Rightarrow> (string + unit) \<times> qemu_store \<times> effect list" where
  "setCpuCores rt cores s =
     (if cores \<ge> MIN_CPU_CORES \<and> cores \<le> MAX_CPU_CORES
      then (case storage_setNumber rt ''@vm_cpu'' cores of
              Inr _ \<Rightarrow> (Inr (), s\<lparr>cpuCores := cores\<rparr>, [CallSetNumber ''@vm_cpu'' cores])
            | Inl msg \<Rightarrow> (Inl msg, s, [CallSetNumber ''@vm_cpu'' cores]))
      else (Inr (), s, []))"

definition sendCommand ::
  "runtime \<Rightarrow> string \<Rightarrow> qemu_store \<Rightarrow> (string + command_reply) \<times> qemu_store \<times> effect list" where
  "sendCommand rt command s =
     (let s1 = addLog (now rt 0) (''> '' @ command) s in
      case module_sendCommand rt command of
        Inr result \<Rightarrow>
          (Inr result,
           (case reply_output result of
              None \<Rightarrow> s1
            | Some out \<Rightarrow> if out = [] then s1 else addLog (now rt 1) out s1),
           [CallSendCommand command])
      | Inl msg \<Rightarrow>
          (Inl msg, addLog (now rt 1) (''Command failed: '' @ msg) s1, [CallSendCommand command]))"

text \<open>
  The runtime whose module is \<^verbatim>\<open>MockQemuModule\<close>, the module used where the native one
  is not available: every call resolves. The store of settings accepts every write.
\<close>

definition MockQemuModule :: "(nat \<Rightarrow> string) \<Rightarrow> nat \<Rightarrow> runtime" where
  "MockQemuModule clock timer =
     \<lparr>module_initialize =
        Inr \<lparr>qemuDir = ''/data/data/com.dockerandroid/files/qemu'',
             isoPath = ''/data/data/com.dockerandroid/files/qemu/alpine-virt.iso'',
             diskPath = ''/data/data/com.dockerandroid/files/qemu/alpine-disk.qcow2''\<rparr>,
      module_startVM = (\<lambda>ramMB cpuCores. Inr ()),
      module_stopVM = Inr (),
      module_getStatus =
        Inr \<lparr>reply_status = ''running'', reply_uptime = Some 3600,
             reply_cpuUsage = Some 15.5, reply_memoryUsage = Some 45.2\<rparr>,
      module_sendCommand = (\<lambda>command. Inr \<lparr>reply_output = Some (''Executed: '' @ command)\<rparr>),
      storage_setNumber = (\<lambda>key v. Inr ()),
      now = clock,
      setInterval_id = timer\<rparr>"

section \<open>The foreground service (QemuService.java)\<close>

text \<open>
  The child process as the service sees it: the lines it writes to its combined output,
  whether it is alive when \<^verbatim>\<open>isRunning()\<close> asks, and, for every \<open>t\<close>, whether it has
  exited \<open>t\<close> scheduling steps after \<^verbatim>\<open>destroy()\<close> sent it SIGTERM.
\<close>

record process =
  stdout_lines :: "string list"
  isAlive :: bool
  exited_after_destroy :: "nat \<Rightarrow> bool"

record qemu_service =
  qemuProcess :: "process option"
  isRunning :: bool
  startTime :: int
  outputReaderThread :: bool
  logBuffer :: string

text \<open>
  What the service reaches outside itself: the two directories, whether the bundled binary
  exists, \<^verbatim>\<open>ProcessBuilder.start()\<close> (an \<^verbatim>\<open>IOException\<close> with its message, or the
  child), the clock, and, for every \<open>t\<close>, whether the thread running \<^verbatim>\<open>stopQemu\<close>
  has been interrupted by step \<open>t\<close> of its wait.
\<close>

record service_env =
  filesDir :: string
  nativeLibraryDir :: string
  qemuBinaryExists :: bool
  pb_start :: "string list \<Rightarrow> string + process"
  currentTimeMillis :: int
  interrupted :: "nat \<Rightarrow> bool"

datatype svc_effect =
    StartForeground string
  | Spawn "string list"
  | StartOutputReader
  | UpdateNotification string
  | Destroy
  | DestroyForcibly
  | InterruptOutputReader
  | StopForeground
  | StopSelf

definition initial_service :: qemu_service where
  "initial_service =
     \<lparr>qemuProcess = None, isRunning = False, startTime = 0, outputReaderThread = False,
      logBuffer = []\<rparr>"

text \<open>\<^verbatim>\<open>new File(dir, name).getAbsolutePath()\<close> for an absolute \<open>dir\<close>.\<close>

definition file_in :: "string \<Rightarrow> string \<Rightarrow> string" where
  "file_in dir name = dir @ ''/'' @ name"

definition buildQemuCommand :: "service_env \<Rightarrow> int \<Rightarrow> int \<Rightarrow> string list" where
  "buildQemuCommand env ram cpu =
     (let qemuDir = file_in (filesDir env) ''qemu'' in
      [if qemuBinaryExists env then file_in (nativeLibraryDir env) ''libqemu-system-x86_64.so''
       else ''/system/bin/qemu-system-x86_64'',
       ''-machine'', ''q35,accel=tcg'',
       ''-cpu'', ''max'',
       ''-smp'', int_to_string cpu,
       ''-m'', int_to_string ram,
       ''-display'', ''none'',
       ''-serial'', ''stdio'',
       ''-drive'', ''file='' @ file_in qemuDir ''alpine-disk.qcow2'' @ '',if=virtio,format=qcow2'',
       ''-cdrom'', file_in qemuDir ''alpine-virt.iso'',
       ''-netdev'',
       ''user,id=net0,'' @ ''hostfwd=tcp::2375-:2375,'' @ ''hostfwd=tcp::2222-:22,''
         @ ''hostfwd=tcp::8080-:8080,'' @ ''hostfwd=tcp::8443-:443'',
       ''-device'', ''virtio-net-pci,netdev=net0'',
       ''-qmp'', ''unix:'' @ file_in qemuDir ''qmp.sock'' @ '',server,nowait'',
       ''-daemonize''])"

definition startQemu ::
  "service_env \<Rightarrow> int \<Rightarrow> int \<Rightarrow> qemu_service \<Rightarrow> qemu_service \<times> svc_effect list" where
  "startQemu env ram cpu svc =
     (if isRunning svc then (svc, [])
      else
        (let command = buildQemuCommand env ram cpu in
         case pb_start env command of
           Inr p \<Rightarrow>
             (svc\<lparr>qemuProcess := Some p, isRunning := True,
                  startTime := currentTimeMillis env, outputReaderThread := True\<rparr>,
              [StartForeground ''Starting VM...'', Spawn command, StartOutputReader,
               UpdateNotification ''Alpine Linux VM Running''])
         | Inl msg \<Rightarrow>
             (svc\<lparr>isRunning := False\<rparr>,
              [StartForeground ''Starting VM...'', Spawn command, StopSelf])))"

text \<open>
  \<^verbatim>\<open>Process.waitFor()\<close>: it returns once the child has exited and throws
  \<^verbatim>\<open>InterruptedException\<close> when the waiting thread is interrupted first. It has no
  timeout: when neither ever happens it does not return, which is the value \<open>None\<close>.
\<close>

datatype wait_result = Exited | Interrupted

partial_function (option) waitFor :: "(nat \<Rightarrow> bool) \<Rightarrow> (nat \<Rightarrow> bool) \<Rightarrow> nat \<Rightarrow> wait_result option"
  where
  "waitFor has_exited is_interrupted t =
     (if has_exited t then Some Exited
      else if is_interrupted t then Some Interrupted
      else waitFor has_exited is_interrupted (Suc t))"

text \<open>\<^verbatim>\<open>stopQemu\<close>; \<open>None\<close> when the call does not return.\<close>

definition stopQemu :: "service_env \<Rightarrow> qemu_service \<Rightarrow> (qemu_service \<times> svc_effect list) option"
  where
  "stopQemu env svc =
     (if \<not> isRunning svc then Some (svc, [])
      else
        (case (case qemuProcess svc of
                 None \<Rightarrow> Some []
               | Some p \<Rightarrow>
                   (case waitFor (exited_after_destroy p) (interrupted env) 0 of
                      None \<Rightarrow> None
                    | Some Exited \<Rightarrow> Some [Destroy]
                    | Some Interrupted \<Rightarrow> Some [Destroy, DestroyForcibly])) of
           None \<Rightarrow> None
         | Some e \<Rightarrow>
             Some (svc\<lparr>qemuProcess := None, isRunning := False, startTime := 0,
                       outputReaderThread := False\<rparr>,
                   e @ (if outputReaderThread svc then [InterruptOutputReader] else [])
                     @ [StopForeground, StopSelf])))"

text \<open>The public \<^verbatim>\<open>isRunning()\<close> of the service.\<close>

definition service_isRunning :: "qemu_service \<Rightarrow> bool" where
  "service_isRunning svc =
     (isRunning svc \<and> (case qemuProcess svc of None \<Rightarrow> False | Some p \<Rightarrow> isAlive p))"

text \<open>
  The synchronized block of the output reader: the line and a line feed are appended, and
  when the buffer is longer than 10000 characters its front is deleted so that the last
  10000 remain.
\<close>

definition appendLine :: "string \<Rightarrow> string \<Rightarrow> string" where
  "appendLine buf line =
     (let b = buf @ line @ [LF] in
      if length b > 10000 then drop (length b - 10000) b else b)"

text \<open>The reader loop over the lines the child writes, in the order it writes them.\<close>

fun readOutput :: "string list \<Rightarrow> string \<Rightarrow> string" where
  "readOutput [] buf = buf"
| "readOutput (line # rest) buf = readOutput rest (appendLine buf line)"

text \<open>
  \<^verbatim>\<open>s.split("\n")\<close> of the Java library: the substrings between the line feeds; the
  string itself when it has no line feed; trailing empty substrings removed.
\<close>

fun split_on :: "char \<Rightarrow> string \<Rightarrow> string list" where
  "split_on c [] = [[]]"
| "split_on c (x # xs) =
     (if x = c then [] # split_on c xs
      else (x # hd (split_on c xs)) # tl (split_on c xs))"

definition java_split :: "char \<Rightarrow> string \<Rightarrow> string list" where
  "java_split c s =
     (if c \<notin> set s then [s]
      else rev (dropWhile (\<lambda>part. part = []) (rev (split_on c s))))"

text \<open>A Java \<^verbatim>\<open>int\<close> result: the value wrapped into the signed 32-bit range.\<close>

definition wrap32 :: "int \<Rightarrow> int" where
  "wrap32 x = (x + 2147483648) mod 4294967296 - 2147483648"

text \<open>\<^verbatim>\<open>getLogs(lines)\<close> of the service, on the buffer it reads.\<close>

definition getLogs :: "int \<Rightarrow> string \<Rightarrow> string" where
  "getLogs lines buf =
     (let allLines = java_split LF buf;
          start = max 0 (wrap32 (int (length allLines) - lines))
      in concat (map (\<lambda>l. l @ [LF]) (drop (nat start) allLines)))"

section \<open>The native bridge (qemu_jni.c)\<close>

record QemuState =
  pid :: int
  running :: int
  data_dir :: string
  ram_mb :: int
  cpu_cores :: int
  start_time :: int

datatype signal = SIGTERM | SIGKILL

datatype sys_effect =
    Kill int signal
  | WaitpidNoHang int
  | Usleep nat
  | WaitpidBlocking int

text \<open>
  The wait loop of \<^verbatim>\<open>nativeStop\<close>. \<open>waitpid k\<close> is what the \<open>k\<close>-th call
  \<^verbatim>\<open>waitpid(pid, &status, WNOHANG)\<close> returns: the pid once the child has exited, a
  negative number on an error, 0 while it still runs. The loop returns the final
  \<^verbatim>\<open>wait_count\<close> and the system calls it made.
\<close>

function wait_loop :: "(nat \<Rightarrow> int) \<Rightarrow> int \<Rightarrow> nat \<Rightarrow> nat \<times> sys_effect list" where
  "wait_loop waitpid p wait_count =
     (if wait_count < 50 then
        (let result = waitpid wait_count in
         if result = p then (wait_count, [WaitpidNoHang p])
         else if result < 0 then (wait_count, [WaitpidNoHang p])
         else (case wait_loop waitpid p (wait_count + 1) of
                 (n, e) \<Rightarrow> (n, [WaitpidNoHang p, Usleep 100000] @ e)))
      else (wait_count, []))"
  by pat_completeness auto
termination
  by (relation "measure (\<lambda>(waitpid, p, wait_count). 50 - wait_count)") auto

declare wait_loop.simps [simp del]

text \<open>
  \<^verbatim>\<open>nativeStop\<close>; the handle is \<open>None\<close> for a null pointer. The blocking
  \<^verbatim>\<open>waitpid\<close> after SIGKILL is one system call that returns, since SIGKILL cannot be
  caught or ignored.
\<close>

definition nativeStop ::
  "(nat \<Rightarrow> int) \<Rightarrow> QemuState option \<Rightarrow> int \<times> QemuState option \<times> sys_effect list" where
  "nativeStop waitpid handle =
     (case handle of
        None \<Rightarrow> (- 1, None, [])
      | Some state \<Rightarrow>
          if running state = 0 \<or> pid state \<le> 0 then (0, Some state, [])
          else
            (case wait_loop waitpid (pid state) 0 of
               (wait_count, polls) \<Rightarrow>
                 (0,
                  Some (state\<lparr>running := 0, pid := - 1, start_time := 0\<rparr>),
                  [Kill (pid state) SIGTERM] @ polls
                    @ (if wait_count \<ge> 50
                       then [Kill (pid state) SIGKILL, WaitpidBlocking (pid state)]
                       else []))))"

text \<open>
  \<^verbatim>\<open>nativeGetStatus\<close>; \<open>result\<close> is what its one call
  \<^verbatim>\<open>waitpid(pid, &status, WNOHANG)\<close> returns when it is made.
\<close>

definition nativeGetStatus :: "int \<Rightarrow> QemuState option \<Rightarrow> int \<times> QemuState option" where
  "nativeGetStatus result handle =
     (case handle of
        None \<Rightarrow> (- 1, None)
      | Some state \<Rightarrow>
          if running state = 0 \<or> pid state \<le> 0 then (0, Some state)
          else if result = pid state then (0, Some (state\<lparr>running := 0, pid := - 1\<rparr>))
          else if result < 0 then (0, Some (state\<lparr>running := 0, pid := - 1\<rparr>))
          else (1, Some state))"

section \<open>The manager behind the native module (QemuManager)\<close>

text \<open>
  Only the fields the command path reads: whether the writer and the reader of the control
  socket are non-null, and the connection flag.
\<close>

record QemuManager =
  qmpWriter :: bool
  qmpReader :: bool
  isConnected :: bool

text \<open>The manager as its constructor leaves it.\<close>

definition new_QemuManager :: QemuManager where
  "new_QemuManager = \<lparr>qmpWriter = False, qmpReader = False, isConnected = False\<rparr>"

text \<open>An exception is its \<^verbatim>\<open>getMessage()\<close>, which may be null (\<open>None\<close>).\<close>

type_synonym exn = "string option"

text \<open>String concatenation renders a null message as the text \<^verbatim>\<open>null\<close>.\<close>

definition message_text :: "exn \<Rightarrow> string" where
  "message_text e = (case e of None \<Rightarrow> ''null'' | Some m \<Rightarrow> m)"

text \<open>
  \<^verbatim>\<open>s.replace(target, replacement)\<close> for a non-empty literal target: every
  occurrence, found from left to right, is replaced.
\<close>

function replace :: "string \<Rightarrow> string \<Rightarrow> string \<Rightarrow> string" where
  "replace target replacement [] = []"
| "replace target replacement (x # xs) =
     (if target \<noteq> [] \<and> prefix target (x # xs)
      then replacement @ replace target replacement (drop (length target) (x # xs))
      else x # replace target replacement xs)"
  by pat_completeness auto
termination
  by (relation "measure (\<lambda>(target, replacement, s). length s)") auto

text \<open>
  \<^verbatim>\<open>s.indexOf(target)\<close> and \<^verbatim>\<open>s.indexOf(target, fromIndex)\<close>: the first position
  where the target occurs, or -1.
\<close>

fun indexOf :: "string \<Rightarrow> string \<Rightarrow> int" where
  "indexOf target [] = (if target = [] then 0 else - 1)"
| "indexOf target (x # xs) =
     (if prefix target (x # xs) then 0
      else (let r = indexOf target xs in if r < 0 then - 1 else r + 1))"

definition indexOf_from :: "string \<Rightarrow> string \<Rightarrow> int \<Rightarrow> int" where
  "indexOf_from target s fromIndex =
     (let r = indexOf target (drop (nat fromIndex) s) in
      if r < 0 then - 1 else max 0 fromIndex + r)"

definition substring :: "string \<Rightarrow> int \<Rightarrow> int \<Rightarrow> string" where
  "substring s beginIndex endIndex = take (nat (endIndex - beginIndex)) (drop (nat beginIndex) s)"

text \<open>\<^verbatim>\<open>s.trim()\<close>: leading and trailing characters up to the space are removed.\<close>

definition trim :: "string \<Rightarrow> string" where
  "trim s =
     rev (dropWhile (\<lambda>c. (of_char c :: nat) \<le> 32) (rev (dropWhile (\<lambda>c. (of_char c :: nat) \<le> 32) s)))"

text \<open>
  \<^verbatim>\<open>executeViaSsh\<close>. \<open>ssh command\<close> is what running the ssh client gives: an exception
  (the client could not be started, or reading failed) or the lines of its output.
\<close>

definition executeViaSsh :: "(string \<Rightarrow> exn + string list) \<Rightarrow> string \<Rightarrow> exn + string" where
  "executeViaSsh ssh command =
     (case ssh command of
        Inl e \<Rightarrow> Inl e
      | Inr lines \<Rightarrow> Inr (trim (concat (map (\<lambda>line. line @ [LF]) lines))))"

text \<open>\<^verbatim>\<open>connectQmp\<close> opens nothing: it only logs a warning.\<close>

definition connectQmp :: "QemuManager \<Rightarrow> QemuManager" where
  "connectQmp m = m"

text \<open>
  \<^verbatim>\<open>disconnect\<close> closes the writer, the reader and the socket that are not null and
  clears the connection flag; it assigns none of the three.
\<close>

definition disconnect :: "QemuManager \<Rightarrow> QemuManager" where
  "disconnect m = m\<lparr>isConnected := False\<rparr>"

text \<open>The line \<^verbatim>\<open>executeViaSerial\<close> writes for a command.\<close>

definition qmpCommand :: "string \<Rightarrow> string" where
  "qmpCommand command =
     ''{'' @ [DQ] @ ''execute'' @ [DQ] @ '':'' @ [DQ] @ ''human-monitor-command'' @ [DQ] @ '',''
       @ [DQ] @ ''arguments'' @ [DQ] @ '':{'' @ [DQ] @ ''command-line'' @ [DQ] @ '':'' @ [DQ]
       @ replace [DQ] [BS, DQ] command @ [DQ] @ ''}}''"

text \<open>The parsing of the response line (\<open>None\<close> is the null of an ended stream).\<close>

definition parseResponse :: "string option \<Rightarrow> string" where
  "parseResponse response =
     (case response of
        None \<Rightarrow> []
      | Some r \<Rightarrow>
          if indexOf ''return'' r \<ge> 0 then
            (let start = indexOf (''return'' @ [DQ] @ '':'' @ [DQ]) r + 9;
                 end = indexOf_from [DQ] r start
             in if start > 8 \<and> end > start
                then replace [BS, CHR ''r''] [CR] (replace [BS, CHR ''n''] [LF] (substring r start end))
                else r)
          else r)"

text \<open>
  \<^verbatim>\<open>executeViaSerial\<close>. \<open>qmp line\<close> is what the control socket answers to a written
  line: an \<^verbatim>\<open>IOException\<close>, or the line read. The result comes with the lines written.
\<close>

definition executeViaSerial ::
  "(string \<Rightarrow> exn + string option) \<Rightarrow> string \<Rightarrow> QemuManager \<Rightarrow> (exn + string) \<times> string list" where
  "executeViaSerial qmp command m =
     (let m1 = (if \<not> isConnected m then connectQmp m else m) in
      if \<not> qmpWriter m1 \<or> \<not> qmpReader m1 then (Inl (Some ''QMP not connected''), [])
      else
        (case qmp (qmpCommand command) of
           Inl e \<Rightarrow> (Inl e, [qmpCommand command])
         | Inr response \<Rightarrow> (Inr (parseResponse response), [qmpCommand command])))"

definition executeCommand ::
  "(string \<Rightarrow> exn + string list) \<Rightarrow> (string \<Rightarrow> exn + string option) \<Rightarrow> string \<Rightarrow> QemuManager
     \<Rightarrow> string" where
  "executeCommand ssh qmp command m =
     (case executeViaSsh ssh command of
        Inr out \<Rightarrow> out
      | Inl e \<Rightarrow>
          (case fst (executeViaSerial qmp command m) of
             Inr out \<Rightarrow> out
           | Inl e2 \<Rightarrow> ''Error: '' @ message_text e2))"

section \<open>Properties of the store\<close>

lemma length_slice_last: "length (slice_last n xs) \<le> n"
  by (simp add: slice_last_def)

lemma length_vmLogs_addLog: "length (vmLogs (addLog ts msg s)) \<le> 200"
  by (simp add: addLog_def length_slice_last)

lemma slice_last_idem_append: "slice_last n (slice_last n xs @ ys) = slice_last n (xs @ ys)"
  by (cases "length xs \<le> n") (simp_all add: slice_last_def add.commute)

lemma slice_last_short: "length xs \<le> n \<Longrightarrow> slice_last n xs = xs"
  by (simp add: slice_last_def)

lemma vmLogs_addLog:
  "vmLogs (addLog ts msg s) = slice_last 200 (vmLogs s @ [\<lparr>timestamp = ts, message = msg\<rparr>])"
  by (simp add: addLog_def)

lemma vmLogs_fold_addLog:
  "slice_last 200 (vmLogs (fold (\<lambda>(ts, msg). addLog ts msg) es s))
     = slice_last 200 (vmLogs s @ map (\<lambda>(ts, msg). \<lparr>timestamp = ts, message = msg\<rparr>) es)"
proof (induction es arbitrary: s)
  case Nil
  show ?case by simp
next
  case (Cons e es)
  obtain ts msg where e: "e = (ts, msg)" by (cases e)
  have "slice_last 200 (vmLogs (addLog ts msg s) @ map (\<lambda>(ts, msg). \<lparr>timestamp = ts, message = msg\<rparr>) es)
      = slice_last 200 ((vmLogs s @ [\<lparr>timestamp = ts, message = msg\<rparr>]) @ map (\<lambda>(ts, msg). \<lparr>timestamp = ts, message = msg\<rparr>) es)"
    by (simp only: vmLogs_addLog slice_last_idem_append)
  with Cons.IH [of "addLog ts msg s"] show ?case
    by (simp add: e)
qed

lemma length_fold_addLog:
  "length (vmLogs s) \<le> 200 \<Longrightarrow> length (vmLogs (fold (\<lambda>(ts, msg). addLog ts msg) es s)) \<le> 200"
  by (induction es arbitrary: s) (auto simp: length_vmLogs_addLog)

lemma last_slice_last: "xs \<noteq> [] \<Longrightarrow> 0 < n \<Longrightarrow> last (slice_last n xs) = last xs"
  by (simp add: slice_last_def)

lemma keep_initialize:
  "length (vmLogs s) \<le> 200 \<Longrightarrow> length (vmLogs (fst (snd (initialize rt s)))) \<le> 200"
  by (simp add: initialize_def Let_def length_vmLogs_addLog split: sum.splits)

lemma keep_stopStatusPolling:
  "vmLogs (fst (stopStatusPolling s)) = vmLogs s"
  by (simp add: stopStatusPolling_def split: option.splits)

lemma keep_startStatusPolling:
  "vmLogs (fst (startStatusPolling rt s)) = vmLogs s"
  by (simp add: startStatusPolling_def)

lemma keep_stopVM:
  "length (vmLogs (fst (snd (stopVM rt s)))) \<le> 200"
  by (simp add: stopVM_def Let_def length_vmLogs_addLog keep_stopStatusPolling split_beta split: sum.splits)

lemma keep_startVM:
  "length (vmLogs s) \<le> 200 \<Longrightarrow> length (vmLogs (fst (snd (startVM rt a b s)))) \<le> 200"
  by (simp add: startVM_def initialize_def Let_def length_vmLogs_addLog keep_startStatusPolling split_beta
      split: sum.splits)

lemma keep_getStatus:
  "vmLogs (fst (snd (getStatus rt s))) = vmLogs s"
  by (simp add: getStatus_def split: sum.splits)

lemma keep_pollTick:
  "vmLogs (fst (pollTick rt s)) = vmLogs s"
  by (simp add: pollTick_def getStatus_def split: sum.splits)

lemma keep_onEvent:
  "length (vmLogs (onEvent ts ev s)) \<le> 200"
  by (cases ev) (simp_all add: Let_def length_vmLogs_addLog)

lemma keep_sendCommand:
  "length (vmLogs (fst (snd (sendCommand rt c s)))) \<le> 200"
  by (simp add: sendCommand_def Let_def length_vmLogs_addLog split: sum.splits option.splits)

lemma keep_setRamMB:
  "vmLogs (fst (snd (setRamMB rt r s))) = vmLogs s"
  by (simp add: setRamMB_def split: sum.splits)

lemma keep_setCpuCores:
  "vmLogs (fst (snd (setCpuCores rt r s))) = vmLogs s"
  by (simp add: setCpuCores_def split: sum.splits)

lemma keep_restartVM:
  "length (vmLogs (fst (snd (restartVM rt s)))) \<le> 200"
  by (simp add: restartVM_def Let_def length_vmLogs_addLog split: sum.splits prod.splits)

text \<open>
  C10. The log list of the store is bounded at 200 entries. After every \<^verbatim>\<open>addLog\<close> the
  list is the last 200 entries of the old list followed by the new entry, so it has at most
  200 entries and the new entry is its last one; after any sequence of \<^verbatim>\<open>addLog\<close>
  calls on the initial store it is exactly the last 200 entries added, in the order they
  were added; \<^verbatim>\<open>clearLogs\<close> empties it; and no other action of the store takes a list
  of at most 200 entries past 200.
\<close>

theorem vmLogs_bounded_at_200:
  "length (vmLogs (addLog ts msg s)) \<le> 200
   \<and> vmLogs (addLog ts msg s) = slice_last 200 (vmLogs s @ [\<lparr>timestamp = ts, message = msg\<rparr>])
   \<and> last (vmLogs (addLog ts msg s)) = \<lparr>timestamp = ts, message = msg\<rparr>
   \<and> vmLogs (fold (\<lambda>(ts, msg). addLog ts msg) es initial_store)
       = slice_last 200 (map (\<lambda>(ts, msg). \<lparr>timestamp = ts, message = msg\<rparr>) es)
   \<and> vmLogs (clearLogs s) = []
   \<and> (length (vmLogs s) \<le> 200 \<longrightarrow>
        length (vmLogs (fst (snd (initialize rt s)))) \<le> 200
        \<and> length (vmLogs (fst (snd (startVM rt customRamMB customCpuCores s)))) \<le> 200
        \<and> length (vmLogs (fst (snd (stopVM rt s)))) \<le> 200
        \<and> length (vmLogs (fst (snd (restartVM rt s)))) \<le> 200
        \<and> length (vmLogs (fst (snd (getStatus rt s)))) \<le> 200
        \<and> length (vmLogs (fst (pollTick rt s))) \<le> 200
        \<and> length (vmLogs (fst (startStatusPolling rt s))) \<le> 200
        \<and> length (vmLogs (fst (stopStatusPolling s))) \<le> 200
        \<and> length (vmLogs (onEvent ts ev s)) \<le> 200
        \<and> length (vmLogs (fst (snd (sendCommand rt command s)))) \<le> 200
        \<and> length (vmLogs (fst (snd (setRamMB rt ram s)))) \<le> 200
        \<and> length (vmLogs (fst (snd (setCpuCores rt cores s)))) \<le> 200
        \<and> length (vmLogs (clearError s)) \<le> 200)"
proof -
  have a: "last (vmLogs (addLog ts msg s)) = \<lparr>timestamp = ts, message = msg\<rparr>"
    by (simp add: vmLogs_addLog last_slice_last)
  have "length (vmLogs (fold (\<lambda>(ts, msg). addLog ts msg) es initial_store)) \<le> 200"
    by (rule length_fold_addLog) (simp add: initial_store_def)
  then have "vmLogs (fold (\<lambda>(ts, msg). addLog ts msg) es initial_store)
      = slice_last 200 (vmLogs (fold (\<lambda>(ts, msg). addLog ts msg) es initial_store))"
    by (simp add: slice_last_short)
  also have "\<dots> = slice_last 200 (map (\<lambda>(ts, msg). \<lparr>timestamp = ts, message = msg\<rparr>) es)"
    by (simp add: vmLogs_fold_addLog initial_store_def)
  finally have b: "vmLogs (fold (\<lambda>(ts, msg). addLog ts msg) es initial_store)
      = slice_last 200 (map (\<lambda>(ts, msg). \<lparr>timestamp = ts, message = msg\<rparr>) es)" .
  have c: "vmLogs (clearLogs s) = []"
    by (simp add: clearLogs_def)
  have d: "vmLogs (clearError s) = vmLogs s"
    by (simp add: clearError_def)
  show ?thesis
    using a b c
    by (simp add: length_slice_last vmLogs_addLog keep_initialize keep_startVM keep_stopVM
        keep_restartVM keep_getStatus keep_pollTick keep_startStatusPolling
        keep_stopStatusPolling keep_onEvent keep_sendCommand keep_setRamMB keep_setCpuCores d)
qed

theorem vmLogs_bounded_at_200_witness:
  "length (vmLogs initial_store) \<le> 200
   \<and> vmLogs (addLog ''t2'' ''b'' (addLog ''t1'' ''a'' initial_store))
       = [\<lparr>timestamp = ''t1'', message = ''a''\<rparr>, \<lparr>timestamp = ''t2'', message = ''b''\<rparr>]
   \<and> vmLogs (clearLogs (addLog ''t1'' ''a'' initial_store)) = []
   \<and> length (vmLogs (fst (snd (startVM (MockQemuModule (\<lambda>k. ''t'') 1) None None initial_store))))
       \<le> 200"
  using vmLogs_bounded_at_200 [of "''t2''" "''b''" "addLog ''t1'' ''a'' initial_store"
      "[(''t1'', ''a''), (''t2'', ''b'')]" "MockQemuModule (\<lambda>k. ''t'') 1" None None]
    vmLogs_bounded_at_200 [of "''t1''" "''a''" initial_store "[]"
      "MockQemuModule (\<lambda>k. ''t'') 1" None None]
  by (simp add: initial_store_def slice_last_def addLog_def)

section \<open>Stopping the child process\<close>


lemma waitFor_returns_only_on_exit_or_interrupt:
  assumes "waitFor e i t = Some r"
  shows "\<exists>k. e k \<or> i k"
  by (rule waitFor.raw_induct [where P = "\<lambda>e i t r. \<exists>k. e k \<or> i k", OF _ assms])
    (auto split: if_splits)

lemma waitFor_never: "waitFor (\<lambda>t. False) (\<lambda>t. False) t = None"
proof (cases "waitFor (\<lambda>t. False) (\<lambda>t. False) t")
  case None
  then show ?thesis .
next
  case (Some r)
  from waitFor_returns_only_on_exit_or_interrupt [OF Some] show ?thesis by simp
qed

lemma waitFor_exits: "e (t + k) \<Longrightarrow> \<exists>r. waitFor e i t = Some r"
proof (induction k arbitrary: t)
  case 0
  then show ?case by (subst waitFor.simps) simp
next
  case (Suc k)
  then have "e (Suc t + k)" by simp
  then obtain r where "waitFor e i (Suc t) = Some r" using Suc.IH by blast
  then show ?case by (subst waitFor.simps) simp
qed

text \<open>
  C4. The stop of the service has no bound on its wait. When the service is running, the
  child ignores the SIGTERM of \<^verbatim>\<open>destroy()\<close> and never exits, and the stopping thread is
  never interrupted, \<^verbatim>\<open>stopQemu\<close> does not return: \<^verbatim>\<open>waitFor()\<close> has no timeout and
  the forced kill stands only in the handler of the interrupt. (The native stop, below,
  polls at most 50 times and then kills.)
\<close>

theorem stopQemu_waits_without_bound:
  "stopQemu (env\<lparr>interrupted := \<lambda>t. False\<rparr>)
     (svc\<lparr>isRunning := True, qemuProcess := Some (p\<lparr>exited_after_destroy := \<lambda>t. False\<rparr>)\<rparr>) = None"
  by (simp add: stopQemu_def waitFor_never)

lemma stopQemu_returns_once_child_exits:
  assumes "exited_after_destroy p k" and "qemuProcess svc = Some p"
  shows "\<exists>r. stopQemu env svc = Some r"
proof -
  from assms(1) have "exited_after_destroy p (0 + k)" by simp
  then obtain r where "waitFor (exited_after_destroy p) (interrupted env) 0 = Some r"
    using waitFor_exits by blast
  then show ?thesis
    using assms(2) by (cases r) (simp_all add: stopQemu_def)
qed

lemma wait_loop_count: "fst (wait_loop waitpid p n) \<le> max n 50"
proof (induction waitpid p n rule: wait_loop.induct)
  case (1 waitpid p wait_count)
  show ?case
    using 1 by (subst wait_loop.simps) (auto simp: Let_def split: prod.splits)
qed

lemma wait_loop_polls:
  "length (filter (\<lambda>e. e = WaitpidNoHang p) (snd (wait_loop waitpid p n))) \<le> 50 - n"
proof (induction waitpid p n rule: wait_loop.induct)
  case (1 waitpid p wait_count)
  show ?case
    using 1 by (subst wait_loop.simps) (auto simp: Let_def split: prod.splits)
qed

lemma wait_loop_still_running:
  assumes "\<And>k. k < 50 \<Longrightarrow> waitpid k = 0" and "0 < p" and "n \<le> 50"
  shows "fst (wait_loop waitpid p n) = 50"
  using assms
proof (induction waitpid p n rule: wait_loop.induct)
  case (1 waitpid p wait_count)
  show ?case
  proof (cases "wait_count < 50")
    case True
    then have w: "waitpid wait_count = 0" by (rule "1.prems"(1))
    have "fst (wait_loop waitpid p (wait_count + 1)) = 50"
      using True w "1.prems" by (intro "1.IH") auto
    then show ?thesis
      using True w "1.prems"(2) by (subst wait_loop.simps) (simp add: split_beta)
  next
    case False
    with "1.prems"(3) show ?thesis by (subst wait_loop.simps) simp
  qed
qed

lemma nativeStop_bounded:
  assumes "running state \<noteq> 0" and "0 < pid state"
  shows "fst (nativeStop waitpid (Some state)) = 0"
    and "fst (snd (nativeStop waitpid (Some state)))
           = Some (state\<lparr>running := 0, pid := - 1, start_time := 0\<rparr>)"
    and "hd (snd (snd (nativeStop waitpid (Some state)))) = Kill (pid state) SIGTERM"
    and "length (filter (\<lambda>e. e = WaitpidNoHang (pid state)) (snd (snd (nativeStop waitpid (Some state)))))
           \<le> 50"
    and "(\<And>k. k < 50 \<Longrightarrow> waitpid k = 0) \<Longrightarrow>
         suffix [Kill (pid state) SIGKILL, WaitpidBlocking (pid state)]
           (snd (snd (nativeStop waitpid (Some state))))"
proof -
  obtain n e where w: "wait_loop waitpid (pid state) 0 = (n, e)"
    by (cases "wait_loop waitpid (pid state) 0")
  have polls: "length (filter (\<lambda>e. e = WaitpidNoHang (pid state)) e) \<le> 50"
    using wait_loop_polls [of "pid state" waitpid 0] w by simp
  show "fst (nativeStop waitpid (Some state)) = 0"
    using assms w by (simp add: nativeStop_def)
  show "fst (snd (nativeStop waitpid (Some state)))
           = Some (state\<lparr>running := 0, pid := - 1, start_time := 0\<rparr>)"
    using assms w by (simp add: nativeStop_def)
  show "hd (snd (snd (nativeStop waitpid (Some state)))) = Kill (pid state) SIGTERM"
    using assms w by (simp add: nativeStop_def)
  show "length (filter (\<lambda>e. e = WaitpidNoHang (pid state)) (snd (snd (nativeStop waitpid (Some state)))))
           \<le> 50"
    using assms w polls by (simp add: nativeStop_def)
  show "suffix [Kill (pid state) SIGKILL, WaitpidBlocking (pid state)]
           (snd (snd (nativeStop waitpid (Some state))))"
    if "\<And>k. k < 50 \<Longrightarrow> waitpid k = 0"
  proof -
    have "n = 50"
      using wait_loop_still_running [of waitpid "pid state" 0] that assms(2) w by simp
    then show ?thesis
      using assms w by (simp add: nativeStop_def suffix_def)
  qed
qed

section \<open>The log buffer of the service\<close>

lemma appendLine_slice_last: "appendLine buf line = slice_last 10000 (buf @ line @ [LF])"
  by (simp add: appendLine_def slice_last_def Let_def)

lemma length_appendLine: "length (appendLine buf line) \<le> 10000"
  by (simp add: appendLine_slice_last length_slice_last)

lemma suffix_slice_last: "suffix (slice_last n xs) xs"
  by (simp add: slice_last_def suffix_drop)

lemma length_readOutput:
  "length buf \<le> 10000 \<Longrightarrow> length (readOutput lines buf) \<le> 10000"
  by (induction lines arbitrary: buf) (simp_all add: length_appendLine)

lemma slice_last_readOutput:
  "slice_last 10000 (readOutput lines buf)
     = slice_last 10000 (buf @ concat (map (\<lambda>l. l @ [LF]) lines))"
proof (induction lines arbitrary: buf)
  case Nil
  show ?case by simp
next
  case (Cons line rest)
  have "slice_last 10000 (appendLine buf line @ concat (map (\<lambda>l. l @ [LF]) rest))
      = slice_last 10000 ((buf @ line @ [LF]) @ concat (map (\<lambda>l. l @ [LF]) rest))"
    by (simp only: appendLine_slice_last slice_last_idem_append)
  with Cons.IH [of "appendLine buf line"] show ?case by simp
qed

lemma suffix_line_slice_last:
  "length ys \<le> n \<Longrightarrow> suffix ys (slice_last n (xs @ ys))"
  by (simp add: slice_last_def suffix_def)

text \<open>
  C5. The log buffer of the service holds the last 10000 characters of everything
  appended. One append of a line leaves the last 10000 characters of the old buffer, the
  line and its line feed: never more than 10000 characters, always an end piece of that
  text (what is dropped is a front piece of the oldest content), and the whole new line
  whenever the line with its line feed fits into 10000 characters. After any sequence of
  lines read into the empty buffer, the buffer is the last 10000 characters of all the
  lines read, in the order read.
\<close>

theorem logBuffer_keeps_most_recent:
  "appendLine buf line
     = drop (length (buf @ line @ [LF]) - 10000) (buf @ line @ [LF])
   \<and> length (appendLine buf line) \<le> 10000
   \<and> suffix (appendLine buf line) (buf @ line @ [LF])
   \<and> (length (line @ [LF]) \<le> 10000 \<longrightarrow> suffix (line @ [LF]) (appendLine buf line))
   \<and> readOutput lines []
       = drop (length (concat (map (\<lambda>l. l @ [LF]) lines)) - 10000)
           (concat (map (\<lambda>l. l @ [LF]) lines))
   \<and> length (readOutput lines []) \<le> 10000"
proof -
  have a: "suffix (appendLine buf line) (buf @ line @ [LF])"
    by (simp only: appendLine_slice_last suffix_slice_last)
  have b: "length (line @ [LF]) \<le> 10000 \<longrightarrow> suffix (line @ [LF]) (appendLine buf line)"
    using suffix_line_slice_last [of "line @ [LF]" 10000 buf]
    by (simp add: appendLine_slice_last)
  have c: "length (readOutput lines []) \<le> 10000"
    by (rule length_readOutput) simp
  then have "readOutput lines [] = slice_last 10000 (readOutput lines [])"
    by (simp add: slice_last_short)
  also have "\<dots> = slice_last 10000 (concat (map (\<lambda>l. l @ [LF]) lines))"
    by (simp add: slice_last_readOutput)
  finally have d: "readOutput lines []
       = drop (length (concat (map (\<lambda>l. l @ [LF]) lines)) - 10000)
           (concat (map (\<lambda>l. l @ [LF]) lines))"
    by (simp add: slice_last_def)
  have e: "appendLine buf line
     = drop (length (buf @ line @ [LF]) - 10000) (buf @ line @ [LF])"
    by (simp add: appendLine_slice_last slice_last_def)
  from a b c d e length_appendLine [of buf line] show ?thesis by blast
qed

theorem logBuffer_keeps_most_recent_witness:
  "length (''ab'' @ [LF]) \<le> 10000
   \<and> length (appendLine (replicate 10000 (CHR ''x'')) ''ab'') \<le> 10000
   \<and> suffix (''ab'' @ [LF]) (appendLine (replicate 10000 (CHR ''x'')) ''ab'')
   \<and> readOutput [''a'', ''b''] [] = ''a'' @ [LF] @ ''b'' @ [LF]"
  using logBuffer_keeps_most_recent [of "replicate 10000 (CHR ''x'')" "''ab''" "[''a'', ''b'']"]
  by (simp add: suffix_append)

section \<open>Reading the log buffer\<close>

text \<open>
  C6. \<^verbatim>\<open>getLogs\<close> of the service does not always return the last lines of the buffer.
  After the child has written the line \<^verbatim>\<open>a\<close> and then two empty lines, the buffer holds
  three lines, the last of them empty, and \<^verbatim>\<open>getLogs(1)\<close> returns the line \<^verbatim>\<open>a\<close>;
  \<^verbatim>\<open>getLogs(3)\<close> returns that one line too. On the empty buffer, which holds no line,
  \<^verbatim>\<open>getLogs(1)\<close> returns one empty line. An empty line inside the buffer is kept.
\<close>

theorem getLogs_drops_trailing_empty_lines:
  "readOutput [''a'', [], []] [] = ''a'' @ [LF, LF, LF]
   \<and> getLogs 1 (readOutput [''a'', [], []] []) = ''a'' @ [LF]
   \<and> getLogs 3 (readOutput [''a'', [], []] []) = ''a'' @ [LF]
   \<and> getLogs 1 [] = [LF]
   \<and> getLogs 2 (readOutput [''a'', [], ''b''] []) = [LF] @ ''b'' @ [LF]"
  by (simp add: getLogs_def java_split_def appendLine_def wrap32_def LF_def)

section \<open>Running a command in the guest\<close>

text \<open>
  C9. \<^verbatim>\<open>executeCommand\<close> returns a string in every case. When the SSH transport
  succeeds its output is the result, whatever the control socket would do; when SSH fails
  and the serial transport succeeds, the serial output is the result; when both fail the
  result is \<^verbatim>\<open>Error: \<close> followed by the message of the second failure (a null message
  reads \<^verbatim>\<open>null\<close>). With the manager as constructed, whose control socket is never
  opened, a failure of SSH always gives \<^verbatim>\<open>Error: QMP not connected\<close>.
\<close>

theorem executeCommand_never_throws:
  "(\<forall>out. executeViaSsh ssh command = Inr out \<longrightarrow> executeCommand ssh qmp command m = out)
   \<and> (\<forall>e out. executeViaSsh ssh command = Inl e
          \<and> fst (executeViaSerial qmp command m) = Inr out
        \<longrightarrow> executeCommand ssh qmp command m = out)
   \<and> (\<forall>e e2. executeViaSsh ssh command = Inl e
          \<and> fst (executeViaSerial qmp command m) = Inl e2
        \<longrightarrow> executeCommand ssh qmp command m = ''Error: '' @ message_text e2)
   \<and> (\<forall>e. executeViaSsh ssh command = Inl e
        \<longrightarrow> executeCommand ssh qmp command new_QemuManager = ''Error: QMP not connected'')"
  by (simp add: executeCommand_def executeViaSerial_def new_QemuManager_def connectQmp_def
      message_text_def)

theorem executeCommand_never_throws_witness:
  "executeCommand (\<lambda>c. Inr [''hi'', []]) (\<lambda>l. Inl None) ''echo hi'' new_QemuManager = ''hi''
   \<and> executeCommand (\<lambda>c. Inl (Some ''Cannot run program ssh'')) (\<lambda>l. Inr (Some ''ok''))
        ''echo hi'' \<lparr>qmpWriter = True, qmpReader = True, isConnected = True\<rparr> = ''ok''
   \<and> executeCommand (\<lambda>c. Inl (Some ''Cannot run program ssh'')) (\<lambda>l. Inl None)
        ''echo hi'' \<lparr>qmpWriter = True, qmpReader = True, isConnected = True\<rparr> = ''Error: null''
   \<and> executeCommand (\<lambda>c. Inl (Some ''Cannot run program ssh'')) (\<lambda>l. Inr (Some ''ok''))
        ''echo hi'' new_QemuManager = ''Error: QMP not connected''"
  using executeCommand_never_throws [of "\<lambda>c. Inr [''hi'', []]" "''echo hi''" "\<lambda>l. Inl None"
      new_QemuManager]
    executeCommand_never_throws [of "\<lambda>c. Inl (Some ''Cannot run program ssh'')" "''echo hi''"
      "\<lambda>l. Inr (Some ''ok'')" "\<lparr>qmpWriter = True, qmpReader = True, isConnected = True\<rparr>"]
    executeCommand_never_throws [of "\<lambda>c. Inl (Some ''Cannot run program ssh'')" "''echo hi''"
      "\<lambda>l. Inl None" "\<lparr>qmpWriter = True, qmpReader = True, isConnected = True\<rparr>"]
  by (simp add: executeViaSsh_def executeViaSerial_def trim_def LF_def parseResponse_def
      message_text_def)

section \<open>Starting the virtual machine\<close>

lemma startVM_initialized:
  assumes "isInitialized s"
    and "module_startVM rt (js_or customRamMB (ramMB s)) (js_or customCpuCores (cpuCores s)) = Inr ()"
  shows "fst (startVM rt customRamMB customCpuCores s) = Inr ()"
    and "vmStatus (fst (snd (startVM rt customRamMB customCpuCores s))) = RUNNING"
    and "snd (snd (startVM rt customRamMB customCpuCores s))
           = [CallStartVM (js_or customRamMB (ramMB s)) (js_or customCpuCores (cpuCores s))]
               @ snd (startStatusPolling rt s) @ setupEventListeners"
  using assms
  by (simp_all add: startVM_def Let_def split_beta startStatusPolling_def addLog_def)

lemma startVM_rejected:
  assumes "isInitialized s"
    and "module_startVM rt (js_or customRamMB (ramMB s)) (js_or customCpuCores (cpuCores s)) = Inl msg"
  shows "fst (startVM rt customRamMB customCpuCores s) = Inl msg"
    and "vmStatus (fst (snd (startVM rt customRamMB customCpuCores s))) = ERROR"
  using assms
  by (simp_all add: startVM_def Let_def split_beta addLog_def)

lemma startQemu_spawns:
  assumes "\<not> isRunning svc" and "pb_start env (buildQemuCommand env ram cpu) = Inr p"
  shows "fst (startQemu env ram cpu svc)
           = svc\<lparr>qemuProcess := Some p, isRunning := True,
                 startTime := currentTimeMillis env, outputReaderThread := True\<rparr>"
    and "snd (startQemu env ram cpu svc)
           = [StartForeground ''Starting VM...'', Spawn (buildQemuCommand env ram cpu),
              StartOutputReader, UpdateNotification ''Alpine Linux VM Running'']"
  using assms by (simp_all add: startQemu_def Let_def)

lemma buildQemuCommand_sizes:
  "buildQemuCommand env ram cpu ! 6 = int_to_string cpu"
  "buildQemuCommand env ram cpu ! 8 = int_to_string ram"
  by (simp_all add: buildQemuCommand_def Let_def)

lemma startVM_phase_irrelevant:
  "startVM rt customRamMB customCpuCores (s\<lparr>vmStatus := phase\<rparr>)
     = startVM rt customRamMB customCpuCores s"
  by (simp add: startVM_def initialize_def Let_def split_beta addLog_def startStatusPolling_def
      split: sum.splits)

lemma pollTick_stats_only:
  "\<exists>stats. fst (pollTick rt s) = s\<lparr>vmStats := stats\<rparr>"
proof (cases "vmStatus s = RUNNING")
  case True
  then show ?thesis
    by (cases "module_getStatus rt") (auto simp: pollTick_def getStatus_def intro: exI [of _ "vmStats s"])
next
  case False
  then show ?thesis by (auto simp: pollTick_def intro: exI [of _ "vmStats s"])
qed

lemma pollTick_effects:
  "snd (pollTick rt s) = (if vmStatus s = RUNNING then [CallGetStatus] else [])"
  by (simp add: pollTick_def getStatus_def split: sum.splits)

lemma stopVM_resolved:
  assumes "module_stopVM rt = Inr ()"
  shows "fst (stopVM rt s) = Inr ()"
    and "fst (snd (stopVM rt s))
          = s\<lparr>vmStatus := STOPPED, error := None, statusInterval := None,
               vmLogs := slice_last 200
                 (slice_last 200 (vmLogs s @ [\<lparr>timestamp = now rt 0, message = ''Stopping VM...''\<rparr>])
                    @ [\<lparr>timestamp = now rt 1, message = ''VM stopped successfully''\<rparr>])\<rparr>"
    and "snd (snd (stopVM rt s))
          = [CallStopVM] @ (case statusInterval s of Some h \<Rightarrow> [ClearInterval h] | None \<Rightarrow> [])
              @ [RemoveAllListeners]"
  using assms
  by (simp_all add: stopVM_def Let_def split_beta addLog_def stopStatusPolling_def
      split: option.splits)

text \<open>
  C1, as the code has it. No tier checks the RAM size or the CPU count of a start
  request. On an initialised store, \<^verbatim>\<open>startVM\<close> requests the launch with whatever values
  it is given (a missing or zero value replaced by the stored setting); when the module
  accepts, it returns success with the phase \<^verbatim>\<open>running\<close>, and when the module rejects it
  rethrows that error with the phase \<^verbatim>\<open>error\<close>. \<^verbatim>\<open>startQemu\<close> spawns the child with the
  values it is given in the argument vector. The ranges [512, 8192] and [1, 8] are
  enforced where a setting is stored: \<^verbatim>\<open>setRamMB\<close> and \<^verbatim>\<open>setCpuCores\<close> ignore a value
  outside its range and leave the store as it was.
\<close>

theorem start_forwards_configuration_unchecked:
  "(isInitialized s
      \<and> module_startVM rt (js_or customRamMB (ramMB s)) (js_or customCpuCores (cpuCores s)) = Inr ()
     \<longrightarrow> fst (startVM rt customRamMB customCpuCores s) = Inr ()
        \<and> vmStatus (fst (snd (startVM rt customRamMB customCpuCores s))) = RUNNING
        \<and> snd (snd (startVM rt customRamMB customCpuCores s))
            = [CallStartVM (js_or customRamMB (ramMB s)) (js_or customCpuCores (cpuCores s))]
                @ snd (startStatusPolling rt s) @ setupEventListeners)
   \<and> (isInitialized s
      \<and> module_startVM rt (js_or customRamMB (ramMB s)) (js_or customCpuCores (cpuCores s)) = Inl msg
     \<longrightarrow> fst (startVM rt customRamMB customCpuCores s) = Inl msg
        \<and> vmStatus (fst (snd (startVM rt customRamMB customCpuCores s))) = ERROR)
   \<and> (\<not> isRunning svc \<and> pb_start env (buildQemuCommand env ram cpu) = Inr p
     \<longrightarrow> isRunning (fst (startQemu env ram cpu svc))
        \<and> qemuProcess (fst (startQemu env ram cpu svc)) = Some p
        \<and> snd (startQemu env ram cpu svc)
            = [StartForeground ''Starting VM...'', Spawn (buildQemuCommand env ram cpu),
               StartOutputReader, UpdateNotification ''Alpine Linux VM Running'']
        \<and> buildQemuCommand env ram cpu ! 6 = int_to_string cpu
        \<and> buildQemuCommand env ram cpu ! 8 = int_to_string ram)
   \<and> (\<not> (MIN_RAM_MB \<le> ram \<and> ram \<le> MAX_RAM_MB) \<longrightarrow> setRamMB rt ram s = (Inr (), s, []))
   \<and> (\<not> (MIN_CPU_CORES \<le> cpu \<and> cpu \<le> MAX_CPU_CORES) \<longrightarrow> setCpuCores rt cpu s = (Inr (), s, []))"
  using startVM_initialized [of s rt customRamMB customCpuCores]
    startVM_rejected [of s rt customRamMB customCpuCores msg]
    startQemu_spawns [of svc env ram cpu p]
  by (auto simp: buildQemuCommand_sizes setRamMB_def setCpuCores_def)

theorem start_forwards_configuration_unchecked_witness:
  "isInitialized (initial_store\<lparr>isInitialized := True\<rparr>)
   \<and> fst (startVM (MockQemuModule (\<lambda>k. ''t'') 1) (Some 100) (Some 9)
         (initial_store\<lparr>isInitialized := True\<rparr>)) = Inr ()
   \<and> vmStatus (fst (snd (startVM (MockQemuModule (\<lambda>k. ''t'') 1) (Some 100) (Some 9)
         (initial_store\<lparr>isInitialized := True\<rparr>)))) = RUNNING
   \<and> snd (snd (startVM (MockQemuModule (\<lambda>k. ''t'') 1) (Some 100) (Some 9)
         (initial_store\<lparr>isInitialized := True\<rparr>)))
       = [CallStartVM 100 9, SetInterval 5000, AddEventListener ''vmStatus'',
          AddEventListener ''vmLog'', AddEventListener ''vmError'']
   \<and> fst (startVM ((MockQemuModule (\<lambda>k. ''t'') 1)\<lparr>module_startVM := \<lambda>r c. Inl ''no''\<rparr>)
         (Some 100) (Some 9) (initial_store\<lparr>isInitialized := True\<rparr>)) = Inl ''no''
   \<and> \<not> isRunning initial_service
   \<and> snd (startQemu
         \<lparr>filesDir = ''/data'', nativeLibraryDir = ''/lib'', qemuBinaryExists = True,
          pb_start = (\<lambda>c. Inr \<lparr>stdout_lines = [], isAlive = True,
                                 exited_after_destroy = (\<lambda>t. True)\<rparr>),
          currentTimeMillis = 0, interrupted = (\<lambda>t. False)\<rparr> 100 9 initial_service) ! 1
       = Spawn (buildQemuCommand
         \<lparr>filesDir = ''/data'', nativeLibraryDir = ''/lib'', qemuBinaryExists = True,
          pb_start = (\<lambda>c. Inr \<lparr>stdout_lines = [], isAlive = True,
                                 exited_after_destroy = (\<lambda>t. True)\<rparr>),
          currentTimeMillis = 0, interrupted = (\<lambda>t. False)\<rparr> 100 9)
   \<and> buildQemuCommand
         \<lparr>filesDir = ''/data'', nativeLibraryDir = ''/lib'', qemuBinaryExists = True,
          pb_start = (\<lambda>c. Inr \<lparr>stdout_lines = [], isAlive = True,
                                 exited_after_destroy = (\<lambda>t. True)\<rparr>),
          currentTimeMillis = 0, interrupted = (\<lambda>t. False)\<rparr> 100 9 ! 8 = ''100''
   \<and> setRamMB (MockQemuModule (\<lambda>k. ''t'') 1) 100 (initial_store\<lparr>isInitialized := True\<rparr>)
       = (Inr (), initial_store\<lparr>isInitialized := True\<rparr>, [])
   \<and> setCpuCores (MockQemuModule (\<lambda>k. ''t'') 1) 9 (initial_store\<lparr>isInitialized := True\<rparr>)
       = (Inr (), initial_store\<lparr>isInitialized := True\<rparr>, [])"
  using start_forwards_configuration_unchecked [where s = "initial_store\<lparr>isInitialized := True\<rparr>"
      and rt = "MockQemuModule (\<lambda>k. ''t'') 1" and customRamMB = "Some 100"
      and customCpuCores = "Some 9" and svc = initial_service
      and env = "\<lparr>filesDir = ''/data'', nativeLibraryDir = ''/lib'', qemuBinaryExists = True,
          pb_start = (\<lambda>c. Inr \<lparr>stdout_lines = [], isAlive = True,
                                 exited_after_destroy = (\<lambda>t. True)\<rparr>),
          currentTimeMillis = 0, interrupted = (\<lambda>t. False)\<rparr>"
      and ram = 100 and cpu = 9
      and p = "\<lparr>stdout_lines = [], isAlive = True, exited_after_destroy = (\<lambda>t. True)\<rparr>"]
    start_forwards_configuration_unchecked [where s = "initial_store\<lparr>isInitialized := True\<rparr>"
      and rt = "(MockQemuModule (\<lambda>k. ''t'') 1)\<lparr>module_startVM := \<lambda>r c. Inl ''no''\<rparr>"
      and customRamMB = "Some 100" and customCpuCores = "Some 9" and msg = "''no''"]
  by (simp add: initial_store_def initial_service_def MockQemuModule_def js_or_def
      startStatusPolling_def setupEventListeners_def MIN_RAM_MB_def MAX_RAM_MB_def
      MIN_CPU_CORES_def MAX_CPU_CORES_def int_to_string_def nat_digits.simps)

text \<open>
  C1 as stated fails: a start with 100 MB of RAM on an initialised, stopped store is not
  rejected. The launch is requested with 100 MB, the call succeeds and the phase goes from
  \<^verbatim>\<open>stopped\<close> to \<^verbatim>\<open>running\<close>.
\<close>

theorem start_with_ram_100_is_not_rejected:
  "vmStatus (initial_store\<lparr>isInitialized := True\<rparr>) = STOPPED
   \<and> fst (startVM (MockQemuModule (\<lambda>k. ''t'') 1) (Some 100) None
         (initial_store\<lparr>isInitialized := True\<rparr>)) = Inr ()
   \<and> vmStatus (fst (snd (startVM (MockQemuModule (\<lambda>k. ''t'') 1) (Some 100) None
         (initial_store\<lparr>isInitialized := True\<rparr>)))) = RUNNING
   \<and> hd (snd (snd (startVM (MockQemuModule (\<lambda>k. ''t'') 1) (Some 100) None
         (initial_store\<lparr>isInitialized := True\<rparr>)))) = CallStartVM 100 2"
  by (simp add: startVM_def initial_store_def MockQemuModule_def js_or_def Let_def split_beta
      startStatusPolling_def addLog_def DEFAULT_CPU_CORES_def)

text \<open>
  C2, as the code has it. \<^verbatim>\<open>startVM\<close> does not read the phase: called in any phase,
  busy ones included, it does exactly what it does in every other phase, so it requests
  the launch again and rejects nothing. The busy phases are told apart by
  \<^verbatim>\<open>isVmBusy\<close> (true in \<^verbatim>\<open>starting\<close>, \<^verbatim>\<open>stopping\<close> and \<^verbatim>\<open>initializing\<close> only), which the
  screens use to disable their buttons. A second child is prevented in the service:
  \<^verbatim>\<open>startQemu\<close> on a service that is running spawns nothing, changes nothing and
  reports no error.
\<close>

theorem start_does_not_read_phase:
  "startVM rt customRamMB customCpuCores (s\<lparr>vmStatus := phase\<rparr>)
     = startVM rt customRamMB customCpuCores s
   \<and> (isVmBusy s \<longleftrightarrow> vmStatus s = STARTING \<or> vmStatus s = STOPPING \<or> vmStatus s = INITIALIZING)
   \<and> (isRunning svc \<longrightarrow> startQemu env ram cpu svc = (svc, []))"
  by (simp add: startVM_phase_irrelevant isVmBusy_def startQemu_def)

theorem start_does_not_read_phase_witness:
  "isRunning (initial_service\<lparr>isRunning := True\<rparr>)
   \<and> startQemu \<lparr>filesDir = ''/data'', nativeLibraryDir = ''/lib'', qemuBinaryExists = True,
        pb_start = (\<lambda>c. Inl ''denied''), currentTimeMillis = 0, interrupted = (\<lambda>t. False)\<rparr>
       2048 2 (initial_service\<lparr>isRunning := True\<rparr>)
       = (initial_service\<lparr>isRunning := True\<rparr>, [])
   \<and> startVM (MockQemuModule (\<lambda>k. ''t'') 1) None None (initial_store\<lparr>vmStatus := STARTING\<rparr>)
       = startVM (MockQemuModule (\<lambda>k. ''t'') 1) None None initial_store
   \<and> isVmBusy (initial_store\<lparr>vmStatus := STARTING\<rparr>)"
  using start_does_not_read_phase [where rt = "MockQemuModule (\<lambda>k. ''t'') 1"
      and customRamMB = None and customCpuCores = None and s = initial_store
      and phase = STARTING and svc = "initial_service\<lparr>isRunning := True\<rparr>"
      and env = "\<lparr>filesDir = ''/data'', nativeLibraryDir = ''/lib'', qemuBinaryExists = True,
        pb_start = (\<lambda>c. Inl ''denied''), currentTimeMillis = 0, interrupted = (\<lambda>t. False)\<rparr>"
      and ram = 2048 and cpu = 2]
    start_does_not_read_phase [where s = "initial_store\<lparr>vmStatus := STARTING\<rparr>"]
  by (simp add: initial_service_def)

text \<open>
  C2 as stated fails: a start made while the phase is \<^verbatim>\<open>starting\<close> returns success,
  not a busy error, and the launch is requested once more.
\<close>

theorem start_while_starting_is_not_rejected:
  "isVmBusy (initial_store\<lparr>isInitialized := True, vmStatus := STARTING\<rparr>)
   \<and> fst (startVM (MockQemuModule (\<lambda>k. ''t'') 1) None None
         (initial_store\<lparr>isInitialized := True, vmStatus := STARTING\<rparr>)) = Inr ()
   \<and> snd (snd (startVM (MockQemuModule (\<lambda>k. ''t'') 1) None None
         (initial_store\<lparr>isInitialized := True, vmStatus := STARTING\<rparr>)))
       = [CallStartVM 2048 2, SetInterval 5000, AddEventListener ''vmStatus'',
          AddEventListener ''vmLog'', AddEventListener ''vmError'']"
  by (simp add: startVM_def initial_store_def MockQemuModule_def js_or_def Let_def split_beta
      startStatusPolling_def addLog_def DEFAULT_CPU_CORES_def DEFAULT_RAM_MB_def isVmBusy_def
      setupEventListeners_def)

section \<open>Liveness\<close>

text \<open>
  C3, as the code has it. The poll of the store, made every 5000 ms, asks for the status
  only while the phase is \<^verbatim>\<open>running\<close>, and then changes nothing but the statistics:
  whatever the reply says, the phase stays as it was and nothing but the status request
  goes out, so no transition is published. The phase becomes \<^verbatim>\<open>stopped\<close> when a
  \<^verbatim>\<open>vmStatus\<close> event with the status \<^verbatim>\<open>stopped\<close> arrives. In the native bridge,
  \<^verbatim>\<open>nativeGetStatus\<close> on a running state clears the running flag and the pid and
  returns 0 when \<^verbatim>\<open>waitpid\<close> reports that the child has exited or fails, and returns 1
  leaving the state alone while the child runs.
\<close>

theorem poll_changes_statistics_only:
  "vmStatus (fst (pollTick rt s)) = vmStatus s
   \<and> (\<exists>stats. fst (pollTick rt s) = s\<lparr>vmStats := stats\<rparr>)
   \<and> snd (pollTick rt s) = (if vmStatus s = RUNNING then [CallGetStatus] else [])
   \<and> vmStatus (onEvent ts (VmStatusEvent ''stopped'') s) = STOPPED
   \<and> (running state \<noteq> 0 \<and> 0 < pid state \<and> (result = pid state \<or> result < 0)
     \<longrightarrow> nativeGetStatus result (Some state) = (0, Some (state\<lparr>running := 0, pid := - 1\<rparr>)))
   \<and> (running state \<noteq> 0 \<and> 0 < pid state \<and> result = 0
     \<longrightarrow> nativeGetStatus result (Some state) = (1, Some state))"
proof -
  obtain stats where st: "fst (pollTick rt s) = s\<lparr>vmStats := stats\<rparr>"
    using pollTick_stats_only by blast
  then have "vmStatus (fst (pollTick rt s)) = vmStatus s" by simp
  with st show ?thesis
    by (auto simp: pollTick_effects nativeGetStatus_def addLog_def Let_def)
qed

theorem poll_changes_statistics_only_witness:
  "running \<lparr>pid = 4242, running = 1, data_dir = ''/data/qemu'', ram_mb = 2048, cpu_cores = 2,
      start_time = 1000\<rparr> \<noteq> 0
   \<and> nativeGetStatus 4242 (Some \<lparr>pid = 4242, running = 1, data_dir = ''/data/qemu'',
        ram_mb = 2048, cpu_cores = 2, start_time = 1000\<rparr>)
       = (0, Some \<lparr>pid = - 1, running = 0, data_dir = ''/data/qemu'', ram_mb = 2048,
            cpu_cores = 2, start_time = 1000\<rparr>)
   \<and> nativeGetStatus 0 (Some \<lparr>pid = 4242, running = 1, data_dir = ''/data/qemu'',
        ram_mb = 2048, cpu_cores = 2, start_time = 1000\<rparr>)
       = (1, Some \<lparr>pid = 4242, running = 1, data_dir = ''/data/qemu'', ram_mb = 2048,
            cpu_cores = 2, start_time = 1000\<rparr>)
   \<and> vmStatus (fst (pollTick (MockQemuModule (\<lambda>k. ''t'') 1) (initial_store\<lparr>vmStatus := RUNNING\<rparr>)))
       = RUNNING
   \<and> snd (pollTick (MockQemuModule (\<lambda>k. ''t'') 1) (initial_store\<lparr>vmStatus := RUNNING\<rparr>))
       = [CallGetStatus]"
  using poll_changes_statistics_only [of "MockQemuModule (\<lambda>k. ''t'') 1"
      "initial_store\<lparr>vmStatus := RUNNING\<rparr>" "''t''"
      "\<lparr>pid = 4242, running = 1, data_dir = ''/data/qemu'', ram_mb = 2048, cpu_cores = 2,
        start_time = 1000\<rparr>" 4242]
    poll_changes_statistics_only [of "MockQemuModule (\<lambda>k. ''t'') 1"
      "initial_store\<lparr>vmStatus := RUNNING\<rparr>" "''t''"
      "\<lparr>pid = 4242, running = 1, data_dir = ''/data/qemu'', ram_mb = 2048, cpu_cores = 2,
        start_time = 1000\<rparr>" 0]
  by simp

text \<open>
  C3 as stated fails: with the phase \<^verbatim>\<open>running\<close> and a status reply that says
  \<^verbatim>\<open>stopped\<close> (the child is gone), the poll leaves the phase \<^verbatim>\<open>running\<close> and sends out
  nothing but the status request.
\<close>

theorem poll_after_exit_keeps_phase_running:
  "vmStatus (fst (pollTick
       ((MockQemuModule (\<lambda>k. ''t'') 1)
          \<lparr>module_getStatus := Inr \<lparr>reply_status = ''stopped'', reply_uptime = Some 0,
             reply_cpuUsage = Some 0, reply_memoryUsage = Some 0\<rparr>\<rparr>)
       (initial_store\<lparr>isInitialized := True, vmStatus := RUNNING\<rparr>))) = RUNNING
   \<and> snd (pollTick
       ((MockQemuModule (\<lambda>k. ''t'') 1)
          \<lparr>module_getStatus := Inr \<lparr>reply_status = ''stopped'', reply_uptime = Some 0,
             reply_cpuUsage = Some 0, reply_memoryUsage = Some 0\<rparr>\<rparr>)
       (initial_store\<lparr>isInitialized := True, vmStatus := RUNNING\<rparr>)) = [CallGetStatus]"
  by (simp add: pollTick_def getStatus_def MockQemuModule_def initial_store_def)

section \<open>Stopping when already stopped\<close>

text \<open>
  C8, as the code has it. In the two process tiers a stop of a stopped machine does
  nothing and succeeds: \<^verbatim>\<open>nativeStop\<close> on a state whose running flag is clear (or that has
  no pid) returns 0, and \<^verbatim>\<open>stopQemu\<close> on a service that is not running returns, each
  without a signal and without a change of state. The store's \<^verbatim>\<open>stopVM\<close> has no such
  guard: in the phase \<^verbatim>\<open>stopped\<close> it still forwards the stop to the module and, when that
  succeeds, returns success with the phase \<^verbatim>\<open>stopped\<close>, two more log entries, the error
  cleared, the poll timer cancelled and the listeners removed.
\<close>

theorem stop_when_already_stopped:
  "(running state = 0 \<or> pid state \<le> 0 \<longrightarrow> nativeStop waitpid (Some state) = (0, Some state, []))
   \<and> (\<not> isRunning svc \<longrightarrow> stopQemu env svc = Some (svc, []))
   \<and> (vmStatus s = STOPPED \<and> module_stopVM rt = Inr ()
     \<longrightarrow> fst (stopVM rt s) = Inr ()
        \<and> fst (snd (stopVM rt s))
            = s\<lparr>vmStatus := STOPPED, error := None, statusInterval := None,
                 vmLogs := slice_last 200
                   (slice_last 200
                      (vmLogs s @ [\<lparr>timestamp = now rt 0, message = ''Stopping VM...''\<rparr>])
                    @ [\<lparr>timestamp = now rt 1, message = ''VM stopped successfully''\<rparr>])\<rparr>
        \<and> snd (snd (stopVM rt s))
            = [CallStopVM]
                @ (case statusInterval s of Some h \<Rightarrow> [ClearInterval h] | None \<Rightarrow> [])
                @ [RemoveAllListeners])"
  using stopVM_resolved [of rt s]
  by (simp add: nativeStop_def stopQemu_def)

theorem stop_when_already_stopped_witness:
  "running \<lparr>pid = - 1, running = 0, data_dir = ''/data/qemu'', ram_mb = 2048, cpu_cores = 2,
      start_time = 0\<rparr> = 0
   \<and> nativeStop (\<lambda>k. 0) (Some \<lparr>pid = - 1, running = 0, data_dir = ''/data/qemu'',
        ram_mb = 2048, cpu_cores = 2, start_time = 0\<rparr>)
       = (0, Some \<lparr>pid = - 1, running = 0, data_dir = ''/data/qemu'', ram_mb = 2048,
            cpu_cores = 2, start_time = 0\<rparr>, [])
   \<and> stopQemu \<lparr>filesDir = ''/data'', nativeLibraryDir = ''/lib'', qemuBinaryExists = True,
        pb_start = (\<lambda>c. Inl ''denied''), currentTimeMillis = 0, interrupted = (\<lambda>t. False)\<rparr>
       initial_service = Some (initial_service, [])
   \<and> vmStatus initial_store = STOPPED
   \<and> fst (stopVM (MockQemuModule (\<lambda>k. ''t'') 1) initial_store) = Inr ()
   \<and> snd (snd (stopVM (MockQemuModule (\<lambda>k. ''t'') 1) initial_store))
       = [CallStopVM, RemoveAllListeners]"
  using stop_when_already_stopped [of
      "\<lparr>pid = - 1, running = 0, data_dir = ''/data/qemu'', ram_mb = 2048, cpu_cores = 2,
        start_time = 0\<rparr>" "\<lambda>k. 0" initial_service
      "\<lparr>filesDir = ''/data'', nativeLibraryDir = ''/lib'', qemuBinaryExists = True,
        pb_start = (\<lambda>c. Inl ''denied''), currentTimeMillis = 0, interrupted = (\<lambda>t. False)\<rparr>"
      initial_store "MockQemuModule (\<lambda>k. ''t'') 1"]
  by (simp add: initial_service_def initial_store_def MockQemuModule_def)

text \<open>
  C8 as stated fails for the store: \<^verbatim>\<open>stopVM\<close> on the initial store, whose phase is
  \<^verbatim>\<open>stopped\<close>, calls the module and leaves two log entries where there were none.
\<close>

theorem stopVM_when_stopped_is_not_a_no_op:
  "vmStatus initial_store = STOPPED
   \<and> vmLogs initial_store = []
   \<and> vmLogs (fst (snd (stopVM (MockQemuModule (\<lambda>k. ''t'') 1) initial_store)))
       = [\<lparr>timestamp = ''t'', message = ''Stopping VM...''\<rparr>,
          \<lparr>timestamp = ''t'', message = ''VM stopped successfully''\<rparr>]
   \<and> snd (snd (stopVM (MockQemuModule (\<lambda>k. ''t'') 1) initial_store))
       = [CallStopVM, RemoveAllListeners]"
  by (simp add: stopVM_def initial_store_def MockQemuModule_def Let_def split_beta addLog_def
      stopStatusPolling_def slice_last_def)

section \<open>The control channel\<close>

lemma replace_quote:
  "replace [DQ] [BS, DQ] command = concat (map (\<lambda>c. if c = DQ then [BS, DQ] else [c]) command)"
  by (induction command) auto

lemma indexOf_first_quote:
  "DQ \<notin> set xs \<Longrightarrow> indexOf [DQ] (xs @ DQ # ys) = int (length xs)"
  by (induction xs) (auto simp: Let_def)

lemma unescape_line_feeds:
  "BS \<notin> set out \<Longrightarrow>
   replace [BS, CHR ''n''] [LF]
     (concat (map (\<lambda>c. if c = LF then [BS, CHR ''n'']
                       else if c = CR then [BS, CHR ''r''] else [c]) out) @ t)
     = concat (map (\<lambda>c. if c = CR then [BS, CHR ''r''] else [c]) out)
         @ replace [BS, CHR ''n''] [LF] t"
proof (induction out)
  case Nil
  show ?case by simp
next
  case (Cons c cs)
  then have ih: "replace [BS, CHR ''n''] [LF]
       (concat (map (\<lambda>c. if c = LF then [BS, CHR ''n'']
                         else if c = CR then [BS, CHR ''r''] else [c]) cs) @ t)
     = concat (map (\<lambda>c. if c = CR then [BS, CHR ''r''] else [c]) cs)
         @ replace [BS, CHR ''n''] [LF] t"
    and c: "c \<noteq> BS"
    by auto
  have d: "LF \<noteq> CR" "BS \<noteq> CHR ''r''" by (simp_all add: LF_def CR_def BS_def)
  show ?case
    using c d by (simp add: ih)
qed

lemma unescape_carriage_returns:
  "BS \<notin> set out \<Longrightarrow>
   replace [BS, CHR ''r''] [CR] (concat (map (\<lambda>c. if c = CR then [BS, CHR ''r''] else [c]) out) @ t)
     = out @ replace [BS, CHR ''r''] [CR] t"
proof (induction out)
  case Nil
  show ?case by simp
next
  case (Cons c cs)
  then have ih: "replace [BS, CHR ''r''] [CR]
        (concat (map (\<lambda>c. if c = CR then [BS, CHR ''r''] else [c]) cs) @ t)
     = cs @ replace [BS, CHR ''r''] [CR] t"
    and c: "c \<noteq> BS"
    by auto
  show ?case
    using c by (simp add: ih)
qed

lemma unescape_line_ends:
  assumes "BS \<notin> set out"
  shows "replace [BS, CHR ''r''] [CR]
           (replace [BS, CHR ''n''] [LF]
              (concat (map (\<lambda>c. if c = LF then [BS, CHR ''n'']
                                else if c = CR then [BS, CHR ''r''] else [c]) out))) = out"
  using unescape_line_feeds [OF assms, of "[]"] unescape_carriage_returns [OF assms, of "[]"]
  by simp

lemma parse_reply_upto_quote:
  assumes "DQ \<notin> set body" and "body \<noteq> []"
  shows "parseResponse (Some (''{'' @ [DQ] @ ''return'' @ [DQ] @ '':'' @ [DQ] @ body @ DQ # rest))
    = replace [BS, CHR ''r''] [CR] (replace [BS, CHR ''n''] [LF] body)"
proof -
  have q: "CHR ''r'' \<noteq> DQ" by (simp add: DQ_def)
  show ?thesis
    using assms q
    by (simp add: parseResponse_def indexOf_from_def substring_def Let_def indexOf_first_quote)
qed

lemma escaped_line_ends_no_quote:
  "DQ \<notin> set out \<Longrightarrow>
   DQ \<notin> set (concat (map (\<lambda>c. if c = LF then [BS, CHR ''n'']
                             else if c = CR then [BS, CHR ''r''] else [c]) out))"
  by (induction out) (auto simp: DQ_def BS_def)

lemma parse_reply_line_ends:
  assumes "out \<noteq> []" and "DQ \<notin> set out" and "BS \<notin> set out"
  shows "parseResponse (Some (''{'' @ [DQ] @ ''return'' @ [DQ] @ '':'' @ [DQ]
            @ concat (map (\<lambda>c. if c = LF then [BS, CHR ''n'']
                              else if c = CR then [BS, CHR ''r''] else [c]) out)
            @ DQ # rest)) = out"
proof -
  let ?body = "concat (map (\<lambda>c. if c = LF then [BS, CHR ''n'']
                              else if c = CR then [BS, CHR ''r''] else [c]) out)"
  have n: "?body \<noteq> []"
    using assms(1) by (cases out) auto
  have "parseResponse (Some (''{'' @ [DQ] @ ''return'' @ [DQ] @ '':'' @ [DQ] @ ?body @ DQ # rest))
      = replace [BS, CHR ''r''] [CR] (replace [BS, CHR ''n''] [LF] ?body)"
    by (rule parse_reply_upto_quote [OF escaped_line_ends_no_quote [OF assms(2)] n])
  then show ?thesis
    by (simp only: unescape_line_ends [OF assms(3)])
qed

lemma qmpCommand_escapes_quotes:
  "qmpCommand command
     = ''{'' @ [DQ] @ ''execute'' @ [DQ] @ '':'' @ [DQ] @ ''human-monitor-command'' @ [DQ] @ '',''
       @ [DQ] @ ''arguments'' @ [DQ] @ '':{'' @ [DQ] @ ''command-line'' @ [DQ] @ '':'' @ [DQ]
       @ concat (map (\<lambda>c. if c = DQ then [BS, DQ] else [c]) command) @ [DQ] @ ''}}''"
  by (simp only: qmpCommand_def replace_quote)

text \<open>
  C7, as the code has it. The manager never opens the control channel: its constructor
  leaves the writer and the reader null, and neither \<^verbatim>\<open>connectQmp\<close> nor
  \<^verbatim>\<open>disconnect\<close> assigns them, so for every command and every guest
  \<^verbatim>\<open>executeViaSerial\<close> throws \<^verbatim>\<open>QMP not connected\<close> before a line is written or read.
  The line it builds for a command is the \<^verbatim>\<open>human-monitor-command\<close> object with every
  quote of the command written as a backslash and a quote and every other character, a
  backslash included, as it is. The parsing of a response line that starts with
  \<^verbatim>\<open>{"return":"\<close> takes the text up to the first quote that follows, when that text is
  not empty, and undoes in it the escapes of the line feed and of the carriage return and
  no other escape. So a text in which only line feeds and carriage returns were escaped,
  and which has no quote and no backslash of its own, comes back as it was.
\<close>

theorem serial_channel_never_connected:
  "connectQmp new_QemuManager = new_QemuManager
   \<and> disconnect new_QemuManager = new_QemuManager
   \<and> executeViaSerial qmp command new_QemuManager = (Inl (Some ''QMP not connected''), [])
   \<and> qmpCommand command
       = ''{'' @ [DQ] @ ''execute'' @ [DQ] @ '':'' @ [DQ] @ ''human-monitor-command'' @ [DQ]
         @ '','' @ [DQ] @ ''arguments'' @ [DQ] @ '':{'' @ [DQ] @ ''command-line'' @ [DQ] @ '':''
         @ [DQ] @ concat (map (\<lambda>c. if c = DQ then [BS, DQ] else [c]) command) @ [DQ] @ ''}}''
   \<and> (body \<noteq> [] \<and> DQ \<notin> set body
      \<longrightarrow> parseResponse
            (Some (''{'' @ [DQ] @ ''return'' @ [DQ] @ '':'' @ [DQ] @ body @ DQ # rest))
          = replace [BS, CHR ''r''] [CR] (replace [BS, CHR ''n''] [LF] body))
   \<and> (out \<noteq> [] \<and> DQ \<notin> set out \<and> BS \<notin> set out
      \<longrightarrow> parseResponse
            (Some (''{'' @ [DQ] @ ''return'' @ [DQ] @ '':'' @ [DQ]
               @ concat (map (\<lambda>c. if c = LF then [BS, CHR ''n'']
                                 else if c = CR then [BS, CHR ''r''] else [c]) out)
               @ DQ # rest))
          = out)"
  using parse_reply_upto_quote [of body rest] parse_reply_line_ends [of out rest]
    qmpCommand_escapes_quotes [of command]
  by (simp add: connectQmp_def disconnect_def executeViaSerial_def new_QemuManager_def)

theorem serial_channel_never_connected_witness:
  "executeViaSerial (\<lambda>line. Inr (Some (''{'' @ [DQ] @ ''return'' @ [DQ] @ '':'' @ [DQ] @ ''hi'' @ [DQ] @ ''}'')))
       ''echo hi'' new_QemuManager
     = (Inl (Some ''QMP not connected''), [])
   \<and> qmpCommand (''echo '' @ [DQ] @ ''hi'' @ [DQ])
       = ''{'' @ [DQ] @ ''execute'' @ [DQ] @ '':'' @ [DQ] @ ''human-monitor-command'' @ [DQ]
         @ '','' @ [DQ] @ ''arguments'' @ [DQ] @ '':{'' @ [DQ] @ ''command-line'' @ [DQ] @ '':''
         @ [DQ] @ ''echo '' @ [BS, DQ] @ ''hi'' @ [BS, DQ] @ [DQ] @ ''}}''
   \<and> parseResponse
        (Some (''{'' @ [DQ] @ ''return'' @ [DQ] @ '':'' @ [DQ] @ ''a'' @ [BS] @ ''tb''
                 @ [DQ] @ ''}''))
       = ''a'' @ [BS] @ ''tb''
   \<and> parseResponse
        (Some (''{'' @ [DQ] @ ''return'' @ [DQ] @ '':'' @ [DQ] @ ''hi'' @ [BS] @ ''r'' @ [BS]
                 @ ''nthere'' @ [DQ] @ ''}''))
       = ''hi'' @ [CR, LF] @ ''there''"
  using serial_channel_never_connected [where command = "''echo hi''"
      and qmp = "\<lambda>line. Inr (Some (''{'' @ [DQ] @ ''return'' @ [DQ] @ '':'' @ [DQ] @ ''hi'' @ [DQ] @ ''}''))"
      and body = "''a'' @ [BS] @ ''tb''" and rest = "''}''"
      and out = "''hi'' @ [CR, LF] @ ''there''"]
    serial_channel_never_connected [where command = "''echo '' @ [DQ] @ ''hi'' @ [DQ]"]
  by (simp add: DQ_def BS_def CR_def LF_def)

text \<open>
  C7 as stated fails. On the channel the code has, the command \<^verbatim>\<open>echo hi\<close> sent to a
  guest that would answer \<^verbatim>\<open>{"return":"hi"}\<close> gives no payload: nothing is written and
  the call throws, so with SSH failing the caller gets \<^verbatim>\<open>Error: QMP not connected\<close>. And
  the parsing itself, on the reply that carries the output \<^verbatim>\<open>say "hi"\<close> with both quotes
  escaped, gives the word \<^verbatim>\<open>say\<close>, a space and a backslash, which is not the output.
\<close>

theorem serial_round_trip_is_not_faithful:
  "executeViaSerial
       (\<lambda>line. Inr (Some (''{'' @ [DQ] @ ''return'' @ [DQ] @ '':'' @ [DQ] @ ''hi'' @ [DQ] @ ''}'')))
       ''echo hi'' (connectQmp new_QemuManager)
     = (Inl (Some ''QMP not connected''), [])
   \<and> executeCommand (\<lambda>c. Inl (Some ''Cannot run program ssh''))
       (\<lambda>line. Inr (Some (''{'' @ [DQ] @ ''return'' @ [DQ] @ '':'' @ [DQ] @ ''hi'' @ [DQ] @ ''}'')))
       ''echo hi'' new_QemuManager
     = ''Error: QMP not connected''
   \<and> parseResponse
        (Some (''{'' @ [DQ] @ ''return'' @ [DQ] @ '':'' @ [DQ] @ ''say '' @ [BS, DQ] @ ''hi''
                 @ [BS, DQ] @ [DQ] @ ''}''))
       = ''say '' @ [BS]"
  by (simp add: executeViaSerial_def executeCommand_def executeViaSsh_def connectQmp_def
      new_QemuManager_def message_text_def parseResponse_def indexOf_from_def substring_def
      Let_def DQ_def BS_def LF_def CR_def)

end
